theory Spec2Isabelle
  imports Main
begin

section \<open>Schema introspection of \<open>connect_database.py\<close>\<close>

text \<open>
  The development embeds \<open>get_db_schema_as_create_statements\<close> and
  \<open>execute_sql_query\<close> of \<open>src/connect_database.py\<close>.

  Modelling decisions:
  \<^item> A Python value that can stand in a catalog row is \<open>None\<close>, a \<open>str\<close> or an
    \<open>int\<close>. Strings are ASCII text (a \<open>char list\<close>): \<open>str.upper\<close> is modelled on the
    letters a to z only, and what is proved of the type token of a given type string
    is proved for ASCII type strings.
  \<^item> A row is a Python tuple, modelled as a list of values.
  \<^item> The database behind a handle is a function from the query that the cursor
    executes to what \<open>execute\<close> followed by \<open>fetchall\<close> gives: the rows, or the
    exception that one of the two calls raises. The database does not change during a
    call: the same query gets the same answer.
  \<^item> A connection handle is \<open>None\<close> or an object. The connection objects of the
    three drivers define neither \<open>__bool__\<close> nor \<open>__len__\<close>, so every object is
    truthy. An object may lack the attribute \<open>is_connected\<close>; looking it up then
    raises \<open>AttributeError\<close>.
  \<^item> \<open>connection.cursor()\<close>, \<open>cursor.close()\<close> and \<open>print\<close> run no query and are
    taken to return normally.
  \<^item> What a call does beyond its result is recorded: the messages printed, the
    queries executed (in order) and whether a cursor was obtained from the handle.
\<close>

subsection \<open>Python values and strings\<close>

datatype pyval = PyNone | PyStr string | PyInt int

type_synonym row = "pyval list"

datatype pyexn =
    AttributeError
  | ValueError
  | IndexError
  | DatabaseError string

abbreviation NL :: char where "NL \<equiv> CHR 0x0A"
abbreviation QUOTE :: char where "QUOTE \<equiv> CHR 0x27"

definition digit_char :: "nat \<Rightarrow> char" where
  "digit_char d = ''0123456789'' ! d"

function str_of_nat :: "nat \<Rightarrow> string" where
  "str_of_nat n = (if n < 10 then [digit_char n] else str_of_nat (n div 10) @ [digit_char (n mod 10)])"
  by pat_completeness auto
termination
  by (relation "measure id") auto

declare str_of_nat.simps [simp del]

definition str_of_int :: "int \<Rightarrow> string" where
  "str_of_int i = (if i < 0 then CHR ''-'' # str_of_nat (nat (- i)) else str_of_nat (nat i))"

text \<open>\<open>format(v)\<close> as an f-string placeholder \<open>{v}\<close> applies it.\<close>

fun py_format :: "pyval \<Rightarrow> string" where
  "py_format PyNone = ''None''"
| "py_format (PyStr s) = s"
| "py_format (PyInt i) = str_of_int i"

text \<open>Truth value testing, as \<open>if notnull:\<close> and \<open>if pk:\<close> apply it.\<close>

fun truthy :: "pyval \<Rightarrow> bool" where
  "truthy PyNone = False"
| "truthy (PyStr s) = (s \<noteq> [])"
| "truthy (PyInt i) = (i \<noteq> 0)"

text \<open>\<open>str.upper\<close> on ASCII text: the letters a to z move to A to Z.\<close>

definition upper_char :: "char \<Rightarrow> char" where
  "upper_char c =
     (case map_of (zip ''abcdefghijklmnopqrstuvwxyz'' ''ABCDEFGHIJKLMNOPQRSTUVWXYZ'') c of
        Some u \<Rightarrow> u
      | None \<Rightarrow> c)"

text \<open>ASCII text: no character has its eighth bit set.\<close>

definition ascii_text :: "string \<Rightarrow> bool" where
  "ascii_text s = list_all (\<lambda>c. \<not> digit7 c) s"

text \<open>\<open>v.upper()\<close>: only a \<open>str\<close> has the method.\<close>

fun py_upper :: "pyval \<Rightarrow> pyexn + string" where
  "py_upper (PyStr s) = Inr (map upper_char s)"
| "py_upper _ = Inl AttributeError"

text \<open>
  \<open>s.replace(old, new)\<close>: every occurrence of \<open>old\<close>, found from the left and not
  overlapping, becomes \<open>new\<close>; an empty \<open>old\<close> matches before every character and at
  the end.
\<close>

function py_replace :: "string \<Rightarrow> string \<Rightarrow> string \<Rightarrow> string" where
  "py_replace old new s =
     (if old = [] then new @ concat (map (\<lambda>c. c # new) s)
      else if s = [] then []
      else if take (length old) s = old then new @ py_replace old new (drop (length old) s)
      else hd s # py_replace old new (tl s))"
  by pat_completeness auto
termination
  by (relation "measure (\<lambda>(old, new, s). length s)") auto

declare py_replace.simps [simp del]

text \<open>\<open>sep.join(xs)\<close>.\<close>

fun py_join :: "string \<Rightarrow> string list \<Rightarrow> string" where
  "py_join sep [] = []"
| "py_join sep [x] = x"
| "py_join sep (x # y # ys) = x @ sep @ py_join sep (y # ys)"

subsection \<open>Queries, catalogs and connection handles\<close>

datatype dialect = Sqlite | Postgres | MySQL

text \<open>
  The queries of the source, by what they ask. \<open>PragmaTableInfo n\<close> is the text
  \<open>PRAGMA table_info(n);\<close> with the table name already formatted into it; the two
  \<open>information_schema.columns\<close> queries carry the table name as their parameter.
  \<open>UserSql\<close> is the query text given to \<open>execute_sql_query\<close>.
\<close>

datatype query =
    SqliteMasterTables
  | PragmaTableInfo string
  | PostgresTables
  | PostgresColumns pyval
  | MySQLTables
  | MySQLColumns pyval
  | UserSql string

type_synonym catalog = "query \<Rightarrow> pyexn + row list"

datatype connection =
    PyNoneConnection
  | Connection (is_connected: "bool option") (catalog: catalog)

datatype message =
    InvalidConnectionForSchema
  | UnsupportedType string
  | SchemaExtracted
  | ErrorExtractingSchema pyexn
  | InvalidConnectionForQuery
  | ExecutingQuery string
  | QueryExecuted
  | ErrorExecutingQuery pyexn

record 'a outcome =
  returned :: "pyexn + 'a option"
  printed :: "message list"
  queries :: "query list"
  cursor_opened :: bool

subsection \<open>Column definitions\<close>

text \<open>
  The three branches build the \<open>DEFAULT\<close> part with the same statements (lines 77-82,
  117-122 and 164-169).
\<close>

fun default_part :: "pyval \<Rightarrow> string" where
  "default_part PyNone = []"
| "default_part (PyStr s) = '' DEFAULT '' @ [QUOTE] @ py_replace [QUOTE] [QUOTE, QUOTE] s @ [QUOTE]"
| "default_part (PyInt i) = '' DEFAULT '' @ py_format (PyInt i)"

text \<open>Lines 73-86: one column of \<open>PRAGMA table_info\<close>.\<close>

fun sqlite_col_def :: "row \<Rightarrow> pyexn + string" where
  "sqlite_col_def [cid, name, type, notnull, dflt_value, pk] =
     (case py_upper type of
        Inl e \<Rightarrow> Inl e
      | Inr t \<Rightarrow>
          Inr (''    '' @ py_format name @ '' '' @ t
               @ (if truthy notnull then '' NOT NULL'' else [])
               @ default_part dflt_value
               @ (if truthy pk then '' PRIMARY KEY'' else [])))"
| "sqlite_col_def _ = Inl ValueError"

text \<open>Lines 113-122: one column of the Postgres \<open>information_schema.columns\<close> query.\<close>

fun postgres_col_def :: "row \<Rightarrow> pyexn + string" where
  "postgres_col_def [col_name, data_type, is_nullable, column_default] =
     (case py_upper data_type of
        Inl e \<Rightarrow> Inl e
      | Inr t \<Rightarrow>
          Inr (''    '' @ py_format col_name @ '' '' @ t
               @ (if is_nullable = PyStr ''NO'' then '' NOT NULL'' else [])
               @ default_part column_default))"
| "postgres_col_def _ = Inl ValueError"

text \<open>Lines 158-176: one column of the MySQL \<open>information_schema.columns\<close> query.\<close>

fun mysql_col_def :: "row \<Rightarrow> pyexn + string" where
  "mysql_col_def [col_name, col_type, is_nullable, column_key, column_default, extra] =
     (case py_upper col_type of
        Inl e \<Rightarrow> Inl e
      | Inr t \<Rightarrow>
          Inr (''    '' @ py_format col_name @ '' '' @ t
               @ (if is_nullable = PyStr ''NO'' then '' NOT NULL'' else [])
               @ default_part column_default
               @ (if extra = PyStr ''auto_increment'' then '' AUTO_INCREMENT'' else [])
               @ (if column_key = PyStr ''PRI'' then '' PRIMARY KEY'' else [])))"
| "mysql_col_def _ = Inl ValueError"

fun col_def :: "dialect \<Rightarrow> row \<Rightarrow> pyexn + string" where
  "col_def Sqlite = sqlite_col_def"
| "col_def Postgres = postgres_col_def"
| "col_def MySQL = mysql_col_def"

text \<open>The loop over \<open>columns\<close>: the first exception ends it.\<close>

fun column_definitions :: "dialect \<Rightarrow> row list \<Rightarrow> pyexn + string list" where
  "column_definitions d [] = Inr []"
| "column_definitions d (col # cols) =
     (case col_def d col of
        Inl e \<Rightarrow> Inl e
      | Inr cd \<Rightarrow>
          (case column_definitions d cols of
             Inl e \<Rightarrow> Inl e
           | Inr cds \<Rightarrow> Inr (cd # cds)))"

text \<open>\<open>create_table_sql\<close> as it stands when it is appended to \<open>schema_statements\<close>.\<close>

definition create_table_sql :: "dialect \<Rightarrow> pyval \<Rightarrow> row list \<Rightarrow> pyexn + string" where
  "create_table_sql d table_name columns =
     (case column_definitions d columns of
        Inl e \<Rightarrow> Inl e
      | Inr cds \<Rightarrow>
          Inr (''CREATE TABLE '' @ py_format table_name @ '' ('' @ [NL]
               @ py_join ('','' @ [NL]) cds @ [NL] @ '');''))"

subsection \<open>The loop over the tables\<close>

fun list_query :: "dialect \<Rightarrow> query" where
  "list_query Sqlite = SqliteMasterTables"
| "list_query Postgres = PostgresTables"
| "list_query MySQL = MySQLTables"

fun describe_query :: "dialect \<Rightarrow> pyval \<Rightarrow> query" where
  "describe_query Sqlite table_name = PragmaTableInfo (py_format table_name)"
| "describe_query Postgres table_name = PostgresColumns table_name"
| "describe_query MySQL table_name = MySQLColumns table_name"

text \<open>\<open>for (table_name,) in tables\<close>: the row must be a tuple of one element.\<close>

fun unpack1 :: "row \<Rightarrow> pyexn + pyval" where
  "unpack1 [table_name] = Inr table_name"
| "unpack1 _ = Inl ValueError"

text \<open>\<open>row[0]\<close>.\<close>

fun index0 :: "row \<Rightarrow> pyexn + pyval" where
  "index0 (v # _) = Inr v"
| "index0 [] = Inl IndexError"

text \<open>\<open>[row[0] for row in rows]\<close>.\<close>

fun first_columns :: "row list \<Rightarrow> pyexn + pyval list" where
  "first_columns [] = Inr []"
| "first_columns (r # rs) =
     (case index0 r of
        Inl e \<Rightarrow> Inl e
      | Inr v \<Rightarrow> (case first_columns rs of Inl e \<Rightarrow> Inl e | Inr vs \<Rightarrow> Inr (v # vs)))"

text \<open>
  The loop over the tables, with the binding of the loop variable as a parameter. It
  gives the statements appended, or the exception that ended it, and the queries it
  executed.
\<close>

fun tables_loop ::
  "dialect \<Rightarrow> catalog \<Rightarrow> ('a \<Rightarrow> pyexn + pyval) \<Rightarrow> 'a list \<Rightarrow> (pyexn + string list) \<times> query list" where
  "tables_loop d cat bind [] = (Inr [], [])"
| "tables_loop d cat bind (x # xs) =
     (case bind x of
        Inl e \<Rightarrow> (Inl e, [])
      | Inr table_name \<Rightarrow>
          (case cat (describe_query d table_name) of
             Inl e \<Rightarrow> (Inl e, [describe_query d table_name])
           | Inr columns \<Rightarrow>
               (case create_table_sql d table_name columns of
                  Inl e \<Rightarrow> (Inl e, [describe_query d table_name])
                | Inr stmt \<Rightarrow>
                    (case tables_loop d cat bind xs of
                       (Inl e, qs) \<Rightarrow> (Inl e, describe_query d table_name # qs)
                     | (Inr stmts, qs) \<Rightarrow> (Inr (stmt # stmts), describe_query d table_name # qs)))))"

text \<open>The body of one branch of the \<open>try\<close> block, up to the end of its loop.\<close>

fun schema_statements :: "dialect \<Rightarrow> catalog \<Rightarrow> (pyexn + string list) \<times> query list" where
  "schema_statements MySQL cat =
     (case cat MySQLTables of
        Inl e \<Rightarrow> (Inl e, [MySQLTables])
      | Inr rows \<Rightarrow>
          (case first_columns rows of
             Inl e \<Rightarrow> (Inl e, [MySQLTables])
           | Inr tables \<Rightarrow>
               (case tables_loop MySQL cat Inr tables of (r, qs) \<Rightarrow> (r, MySQLTables # qs))))"
| "schema_statements d cat =
     (case cat (list_query d) of
        Inl e \<Rightarrow> (Inl e, [list_query d])
      | Inr tables \<Rightarrow>
          (case tables_loop d cat unpack1 tables of (r, qs) \<Rightarrow> (r, list_query d # qs)))"

subsection \<open>The two entry points\<close>

text \<open>The \<open>if\<close>/\<open>elif\<close> chain on \<open>db_type\<close> (lines 64, 97, 132, 186).\<close>

definition dialect_of :: "string \<Rightarrow> dialect option" where
  "dialect_of db_type =
     (if db_type = ''sqlite'' then Some Sqlite
      else if db_type = ''postgres'' then Some Postgres
      else if db_type \<in> set [''mysql'', ''mariadb''] then Some MySQL
      else None)"

definition get_db_schema_as_create_statements :: "connection \<Rightarrow> string \<Rightarrow> string outcome" where
  "get_db_schema_as_create_statements connection db_type =
     (case connection of
        PyNoneConnection \<Rightarrow>
          \<lparr>returned = Inr None, printed = [InvalidConnectionForSchema], queries = [],
           cursor_opened = False\<rparr>
      | Connection attr cat \<Rightarrow>
          (case attr of
             None \<Rightarrow>
               \<lparr>returned = Inl AttributeError, printed = [], queries = [], cursor_opened = False\<rparr>
           | Some False \<Rightarrow>
               \<lparr>returned = Inr None, printed = [InvalidConnectionForSchema], queries = [],
                cursor_opened = False\<rparr>
           | Some True \<Rightarrow>
               (case dialect_of db_type of
                  None \<Rightarrow>
                    \<lparr>returned = Inr None, printed = [UnsupportedType db_type], queries = [],
                     cursor_opened = True\<rparr>
                | Some d \<Rightarrow>
                    (case schema_statements d cat of
                       (Inl e, qs) \<Rightarrow>
                         \<lparr>returned = Inr None, printed = [ErrorExtractingSchema e], queries = qs,
                          cursor_opened = True\<rparr>
                     | (Inr stmts, qs) \<Rightarrow>
                         \<lparr>returned = Inr (Some (py_join [NL, NL] stmts)),
                          printed = [SchemaExtracted], queries = qs, cursor_opened = True\<rparr>))))"

definition execute_sql_query :: "connection \<Rightarrow> string \<Rightarrow> (row list) outcome" where
  "execute_sql_query connection sql_query =
     (case connection of
        PyNoneConnection \<Rightarrow>
          \<lparr>returned = Inr None, printed = [InvalidConnectionForQuery], queries = [],
           cursor_opened = False\<rparr>
      | Connection attr cat \<Rightarrow>
          (case attr of
             None \<Rightarrow>
               \<lparr>returned = Inl AttributeError, printed = [], queries = [], cursor_opened = False\<rparr>
           | Some False \<Rightarrow>
               \<lparr>returned = Inr None, printed = [InvalidConnectionForQuery], queries = [],
                cursor_opened = False\<rparr>
           | Some True \<Rightarrow>
               (case cat (UserSql sql_query) of
                  Inl e \<Rightarrow>
                    \<lparr>returned = Inr None, printed = [ExecutingQuery sql_query, ErrorExecutingQuery e],
                     queries = [UserSql sql_query], cursor_opened = True\<rparr>
                | Inr results \<Rightarrow>
                    \<lparr>returned = Inr (Some results),
                     printed = [ExecutingQuery sql_query, QueryExecuted],
                     queries = [UserSql sql_query], cursor_opened = True\<rparr>)))"

subsection \<open>The column descriptor and the statement renderer of the specification\<close>

text \<open>
  The specification describes a uniform column descriptor (its section 3), a normalizer
  from each dialect's raw row to it (sections 4.1 and 4.2) and the line that the
  renderer writes for a descriptor (section 4.3). The source has no such intermediate
  value: each branch writes the line from the raw row. The definitions below follow the
  specification's words and are compared with the code in the theorems.
\<close>

record column_descriptor =
  col_name :: string
  declared_type :: string
  nullable :: bool
  default_value :: pyval
  is_primary_key :: bool
  is_auto_increment :: bool

text \<open>
  The not-null flag and the primary key flag of a SQLite row are integers: 0 is not
  set, every other integer is set. A flag that is no integer is read as Python reads
  it in a condition: \<open>None\<close> and the empty string are not set.
\<close>

fun flag_set :: "pyval \<Rightarrow> bool" where
  "flag_set (PyInt n) = (n \<noteq> 0)"
| "flag_set (PyStr s) = (s \<noteq> [])"
| "flag_set PyNone = False"

fun sqlite_descriptor :: "row \<Rightarrow> column_descriptor option" where
  "sqlite_descriptor [cid, name, PyStr t, notnull, dflt_value, pk] =
     Some \<lparr>col_name = py_format name, declared_type = t, nullable = (\<not> flag_set notnull),
           default_value = dflt_value, is_primary_key = flag_set pk, is_auto_increment = False\<rparr>"
| "sqlite_descriptor _ = None"

fun postgres_descriptor :: "row \<Rightarrow> column_descriptor option" where
  "postgres_descriptor [column_name, PyStr t, is_nullable, column_default] =
     Some \<lparr>col_name = py_format column_name, declared_type = t,
           nullable = (is_nullable \<noteq> PyStr ''NO''), default_value = column_default,
           is_primary_key = False, is_auto_increment = False\<rparr>"
| "postgres_descriptor _ = None"

fun mysql_descriptor :: "row \<Rightarrow> column_descriptor option" where
  "mysql_descriptor [column_name, PyStr t, is_nullable, column_key, column_default, extra] =
     Some \<lparr>col_name = py_format column_name, declared_type = t,
           nullable = (is_nullable \<noteq> PyStr ''NO''), default_value = column_default,
           is_primary_key = (column_key = PyStr ''PRI''),
           is_auto_increment = (extra = PyStr ''auto_increment'')\<rparr>"
| "mysql_descriptor _ = None"

fun normalize_row :: "dialect \<Rightarrow> row \<Rightarrow> column_descriptor option" where
  "normalize_row Sqlite = sqlite_descriptor"
| "normalize_row Postgres = postgres_descriptor"
| "normalize_row MySQL = mysql_descriptor"

definition double_quotes :: "string \<Rightarrow> string" where
  "double_quotes s = concat (map (\<lambda>c. if c = QUOTE then [QUOTE, QUOTE] else [c]) s)"

fun spec_default_clause :: "pyval \<Rightarrow> string" where
  "spec_default_clause PyNone = []"
| "spec_default_clause (PyStr s) = '' DEFAULT '' @ [QUOTE] @ double_quotes s @ [QUOTE]"
| "spec_default_clause (PyInt i) = '' DEFAULT '' @ str_of_int i"

definition spec_column_line :: "column_descriptor \<Rightarrow> string" where
  "spec_column_line c =
     ''    '' @ col_name c @ '' '' @ map upper_char (declared_type c)
     @ (if nullable c then [] else '' NOT NULL'')
     @ spec_default_clause (default_value c)
     @ (if is_auto_increment c then '' AUTO_INCREMENT'' else [])
     @ (if is_primary_key c then '' PRIMARY KEY'' else [])"

text \<open>
  The number that a string of decimal digits denotes, to state that \<open>str_of_int\<close> writes
  the decimal numeral.
\<close>

definition digit_value :: "char \<Rightarrow> nat" where
  "digit_value c =
     (case map_of (zip ''0123456789'' [0, 1, 2, 3, 4, 5, 6, 7, 8, 9]) c of
        Some d \<Rightarrow> d
      | None \<Rightarrow> 0)"

definition nat_of_digits :: "string \<Rightarrow> nat" where
  "nat_of_digits s = foldl (\<lambda>a c. 10 * a + digit_value c) 0 s"

subsection \<open>One table of the loop\<close>

text \<open>
  What one iteration of the loop over the tables computes: the loop variable is bound,
  the columns are fetched and the statement is built.
\<close>

definition table_statement ::
  "dialect \<Rightarrow> catalog \<Rightarrow> ('a \<Rightarrow> pyexn + pyval) \<Rightarrow> 'a \<Rightarrow> pyexn + string" where
  "table_statement d cat bind x =
     (case bind x of
        Inl e \<Rightarrow> Inl e
      | Inr table_name \<Rightarrow>
          (case cat (describe_query d table_name) of
             Inl e \<Rightarrow> Inl e
           | Inr columns \<Rightarrow> create_table_sql d table_name columns))"

text \<open>How each branch binds \<open>table_name\<close> from a row of its table listing.\<close>

fun bind_table :: "dialect \<Rightarrow> row \<Rightarrow> pyexn + pyval" where
  "bind_table Sqlite = unpack1"
| "bind_table Postgres = unpack1"
| "bind_table MySQL = index0"

subsection \<open>Example databases\<close>

text \<open>
  A SQLite database with the single table \<open>users\<close>, created with the columns
  \<open>id INTEGER PRIMARY KEY\<close> and \<open>name TEXT NOT NULL\<close> with the default literal \<open>anon\<close>,
  as \<open>sqlite_master\<close> and \<open>PRAGMA table_info\<close> report it: the default of a column is
  the SQL text of its default expression, here the literal with its two quotes.
\<close>

definition users_catalog :: catalog where
  "users_catalog q =
     (if q = SqliteMasterTables then Inr [[PyStr ''users'']]
      else if q = PragmaTableInfo ''users'' then
        Inr [[PyInt 0, PyStr ''id'', PyStr ''INTEGER'', PyInt 0, PyNone, PyInt 1],
             [PyInt 1, PyStr ''name'', PyStr ''TEXT'', PyInt 1,
              PyStr ([QUOTE] @ ''anon'' @ [QUOTE]), PyInt 0]]
      else Inl (DatabaseError ''no such table''))"

text \<open>
  A Postgres database that lists the tables \<open>a\<close> and \<open>b\<close>; the columns of \<open>a\<close> are
  described, the query for the columns of \<open>b\<close> fails.
\<close>

definition dropped_table_catalog :: catalog where
  "dropped_table_catalog q =
     (if q = PostgresTables then Inr [[PyStr ''a''], [PyStr ''b'']]
      else if q = PostgresColumns (PyStr ''a'') then
        Inr [[PyStr ''x'', PyStr ''integer'', PyStr ''NO'', PyNone]]
      else Inl (DatabaseError ''relation does not exist''))"

text \<open>
  A MySQL database that lists the tables \<open>t\<close> and \<open>u\<close>; \<open>t\<close> reports no column, \<open>u\<close> one.
\<close>

definition empty_table_catalog :: catalog where
  "empty_table_catalog q =
     (if q = MySQLTables then Inr [[PyStr ''t''], [PyStr ''u'']]
      else if q = MySQLColumns (PyStr ''t'') then Inr []
      else if q = MySQLColumns (PyStr ''u'') then
        Inr [[PyStr ''id'', PyStr ''int'', PyStr ''NO'', PyStr ''PRI'', PyNone,
              PyStr ''auto_increment'']]
      else Inl (DatabaseError ''unknown table''))"

text \<open>A database without tables, and one whose table listing names a table without columns.\<close>

definition no_tables_catalog :: catalog where
  "no_tables_catalog q = Inr []"

definition columnless_catalog :: catalog where
  "columnless_catalog q =
     (if q = SqliteMasterTables then Inr [[PyStr ''t'']] else Inr [])"

section \<open>Properties\<close>

subsection \<open>Strings\<close>

lemma digit_value_digit_char: "d < 10 \<Longrightarrow> digit_value (digit_char d) = d"
proof -
  assume "d < 10"
  then consider "d = 0" | "d = 1" | "d = 2" | "d = 3" | "d = 4" | "d = 5" | "d = 6" | "d = 7"
    | "d = 8" | "d = 9"
    by atomize_elim arith
  then show ?thesis
    by cases (simp_all add: digit_char_def digit_value_def)
qed

lemma digit_char_is_digit: "d < 10 \<Longrightarrow> digit_char d \<in> set ''0123456789''"
  by (simp add: digit_char_def del: set_simps)

lemma str_of_nat_decimal: "nat_of_digits (str_of_nat n) = n"
proof (induction n rule: str_of_nat.induct)
  case (1 n)
  show ?case
  proof (cases "n < 10")
    case True
    then show ?thesis
      by (subst str_of_nat.simps) (simp add: nat_of_digits_def digit_value_digit_char)
  next
    case False
    with 1 have "nat_of_digits (str_of_nat (n div 10)) = n div 10" by simp
    with False show ?thesis
      by (subst str_of_nat.simps) (simp add: nat_of_digits_def digit_value_digit_char)
  qed
qed

lemma str_of_nat_digits: "set (str_of_nat n) \<subseteq> set ''0123456789''"
proof (induction n rule: str_of_nat.induct)
  case (1 n)
  show ?case
  proof (cases "n < 10")
    case True
    then show ?thesis
      using digit_char_is_digit [of n] by (subst str_of_nat.simps) simp
  next
    case False
    with 1 have "set (str_of_nat (n div 10)) \<subseteq> set ''0123456789''" by simp
    with False show ?thesis
      using digit_char_is_digit [of "n mod 10"] by (subst str_of_nat.simps) simp
  qed
qed

lemma str_of_int_no_quote: "QUOTE \<notin> set (str_of_int i)"
  using str_of_nat_digits [of "nat i"] str_of_nat_digits [of "nat (- i)"]
  by (auto simp: str_of_int_def)

lemma str_of_int_decimal:
  "(0 \<le> i \<longrightarrow> int (nat_of_digits (str_of_int i)) = i)
   \<and> (i < 0 \<longrightarrow> str_of_int i = CHR ''-'' # str_of_int (- i))"
  by (simp add: str_of_int_def str_of_nat_decimal)

lemma py_replace_quote: "py_replace [QUOTE] [QUOTE, QUOTE] s = double_quotes s"
proof (induction s)
  case Nil
  show ?case by (simp add: py_replace.simps double_quotes_def)
next
  case (Cons c cs)
  then show ?case
    by (subst py_replace.simps) (simp add: double_quotes_def)
qed

lemma default_part_spec: "default_part v = spec_default_clause v"
  by (cases v) (simp_all add: py_replace_quote)

lemma py_upper_Inr: "py_upper v = Inr t \<Longrightarrow> \<exists>s. v = PyStr s \<and> t = map upper_char s"
  by (cases v) simp_all

lemma truthy_flag_set: "truthy v = flag_set v"
  by (cases v) simp_all

lemma sqlite_refines:
  "sqlite_descriptor r = Some c \<Longrightarrow> sqlite_col_def r = Inr (spec_column_line c)"
  by (erule sqlite_descriptor.elims)
     (auto simp: spec_column_line_def default_part_spec truthy_flag_set)

lemma postgres_refines:
  "postgres_descriptor r = Some c \<Longrightarrow> postgres_col_def r = Inr (spec_column_line c)"
  by (erule postgres_descriptor.elims) (auto simp: spec_column_line_def default_part_spec)

lemma mysql_refines:
  "mysql_descriptor r = Some c \<Longrightarrow> mysql_col_def r = Inr (spec_column_line c)"
  by (erule mysql_descriptor.elims) (auto simp: spec_column_line_def default_part_spec)

lemma col_def_refines:
  "normalize_row d r = Some c \<Longrightarrow> col_def d r = Inr (spec_column_line c)"
  by (cases d) (simp_all add: sqlite_refines postgres_refines mysql_refines)

lemma sqlite_succeeds: "sqlite_col_def r = Inr line \<Longrightarrow> \<exists>c. sqlite_descriptor r = Some c"
  by (erule sqlite_col_def.elims) (auto split: sum.splits dest!: py_upper_Inr)

lemma postgres_succeeds: "postgres_col_def r = Inr line \<Longrightarrow> \<exists>c. postgres_descriptor r = Some c"
  by (erule postgres_col_def.elims) (auto split: sum.splits dest!: py_upper_Inr)

lemma mysql_succeeds: "mysql_col_def r = Inr line \<Longrightarrow> \<exists>c. mysql_descriptor r = Some c"
  by (erule mysql_col_def.elims) (auto split: sum.splits dest!: py_upper_Inr)

lemma col_def_succeeds:
  "col_def d r = Inr line \<Longrightarrow> \<exists>c. normalize_row d r = Some c"
  by (cases d) (auto dest: sqlite_succeeds postgres_succeeds mysql_succeeds)

lemma col_def_Inr_iff:
  "col_def d r = Inr line \<longleftrightarrow> (\<exists>c. normalize_row d r = Some c \<and> line = spec_column_line c)"
  using col_def_refines col_def_succeeds by fastforce

lemma column_definitions_Inr_iff:
  "column_definitions d cols = Inr lines \<longleftrightarrow>
     list_all2 (\<lambda>r line. col_def d r = Inr line) cols lines"
proof (induction cols arbitrary: lines)
  case Nil
  show ?case by auto
next
  case (Cons r rs)
  show ?case
    by (cases "col_def d r"; cases "column_definitions d rs")
       (auto simp: Cons.IH [symmetric] list_all2_Cons1)
qed

lemma tables_loop_Cons_fst:
  "fst (tables_loop d cat bind (x # xs)) =
     (case table_statement d cat bind x of
        Inl e \<Rightarrow> Inl e
      | Inr s \<Rightarrow>
          (case fst (tables_loop d cat bind xs) of
             Inl e \<Rightarrow> Inl e
           | Inr ss \<Rightarrow> Inr (s # ss)))"
  by (cases "tables_loop d cat bind xs") (auto simp: table_statement_def split: sum.splits)

lemma tables_loop_Inr_iff:
  "fst (tables_loop d cat bind xs) = Inr stmts \<longleftrightarrow>
     list_all2 (\<lambda>x s. table_statement d cat bind x = Inr s) xs stmts"
proof (induction xs arbitrary: stmts)
  case Nil
  show ?case by auto
next
  case (Cons x xs)
  show ?case
    unfolding tables_loop_Cons_fst
    by (cases "table_statement d cat bind x"; cases "fst (tables_loop d cat bind xs)")
       (auto simp: Cons.IH [symmetric] list_all2_Cons1)
qed

lemma tables_loop_failed_query:
  "q \<in> set (snd (tables_loop d cat bind xs)) \<Longrightarrow> cat q = Inl e \<Longrightarrow>
     fst (tables_loop d cat bind xs) = Inl e"
proof (induction xs)
  case Nil
  then show ?case by simp
next
  case (Cons x xs)
  then show ?case
    by (cases "tables_loop d cat bind xs") (auto split: sum.splits)
qed

lemma first_columns_Inr_iff:
  "first_columns rows = Inr vs \<longleftrightarrow> list_all2 (\<lambda>r v. index0 r = Inr v) rows vs"
proof (induction rows arbitrary: vs)
  case Nil
  show ?case by auto
next
  case (Cons r rs)
  show ?case
    by (cases "index0 r"; cases "first_columns rs") (auto simp: Cons.IH [symmetric] list_all2_Cons1)
qed

lemma list_all2_normalized:
  "list_all2 (\<lambda>r line. col_def d r = Inr line) cols lines \<longleftrightarrow>
     (\<exists>cs. list_all2 (\<lambda>r c. normalize_row d r = Some c) cols cs \<and> lines = map spec_column_line cs)"
proof -
  have "(\<lambda>r line. col_def d r = Inr line) =
          (\<lambda>r c. normalize_row d r = Some c) OO (\<lambda>c line. line = spec_column_line c)"
    by (auto simp: col_def_Inr_iff fun_eq_iff OO_def)
  then have "list_all2 (\<lambda>r line. col_def d r = Inr line) cols lines \<longleftrightarrow>
          (list_all2 (\<lambda>r c. normalize_row d r = Some c) OO
             list_all2 (\<lambda>c line. line = spec_column_line c)) cols lines"
    by (simp add: list.rel_compp)
  also have "\<dots> \<longleftrightarrow> (\<exists>cs. list_all2 (\<lambda>r c. normalize_row d r = Some c) cols cs
                        \<and> lines = map spec_column_line cs)"
  proof -
    have "list_all2 (\<lambda>c line. line = spec_column_line c) cs ls \<longleftrightarrow> ls = map spec_column_line cs"
      for cs ls
      by (induction cs arbitrary: ls) (auto simp: list_all2_Cons1)
    then show ?thesis by (auto simp: OO_def)
  qed
  finally show ?thesis .
qed

lemma postgres_col_def_Inr:
  assumes "postgres_col_def r = Inr line"
  shows "\<exists>n ty nul dv. r = [n, PyStr ty, nul, dv]
           \<and> line = ''    '' @ py_format n @ '' '' @ map upper_char ty
                    @ (if nul = PyStr ''NO'' then '' NOT NULL'' else [])
                    @ spec_default_clause dv"
  using assms
  by (elim postgres_col_def.elims) (auto split: sum.splits dest!: py_upper_Inr simp: default_part_spec)

lemma upper_char_range:
  "(x \<notin> set ''abcdefghijklmnopqrstuvwxyz'' \<longrightarrow> upper_char x = x)
   \<and> upper_char x \<notin> set ''abcdefghijklmnopqrstuvwxyz''"
  by (auto simp: upper_char_def)

lemma upper_char_capitals:
  "map upper_char ''abcdefghijklmnopqrstuvwxyz'' = ''ABCDEFGHIJKLMNOPQRSTUVWXYZ''"
  by (simp add: upper_char_def)

lemma sqlite_line:
  "col_def Sqlite [cid, name, PyStr ty, PyInt notnull, dflt_value, PyInt pk] =
     Inr (''    '' @ py_format name @ '' '' @ map upper_char ty
          @ (if notnull \<noteq> 0 then '' NOT NULL'' else [])
          @ spec_default_clause dflt_value
          @ (if pk \<noteq> 0 then '' PRIMARY KEY'' else []))"
  by (simp add: default_part_spec)

lemma postgres_line:
  "col_def Postgres [column_name, PyStr ty, is_nullable, column_default] =
     Inr (''    '' @ py_format column_name @ '' '' @ map upper_char ty
          @ (if is_nullable = PyStr ''NO'' then '' NOT NULL'' else [])
          @ spec_default_clause column_default)"
  by (simp add: default_part_spec)

lemma mysql_line:
  "col_def MySQL [column_name, PyStr ty, is_nullable, column_key, column_default, extra] =
     Inr (''    '' @ py_format column_name @ '' '' @ map upper_char ty
          @ (if is_nullable = PyStr ''NO'' then '' NOT NULL'' else [])
          @ spec_default_clause column_default
          @ (if extra = PyStr ''auto_increment'' then '' AUTO_INCREMENT'' else [])
          @ (if column_key = PyStr ''PRI'' then '' PRIMARY KEY'' else []))"
  by (simp add: default_part_spec)

lemma upper_char_ascii_text:
  "ascii_text ty \<Longrightarrow> i < length ty \<Longrightarrow> ty ! i \<notin> set ''abcdefghijklmnopqrstuvwxyz''
     \<Longrightarrow> map upper_char ty ! i = ty ! i"
  using upper_char_range [of "ty ! i"] by simp

subsection \<open>The loop and the whole call\<close>


lemma table_statement_compose:
  "(\<lambda>r s. table_statement d cat index0 r = Inr s) =
     (\<lambda>r v. index0 r = Inr v) OO (\<lambda>v s. table_statement d cat Inr v = Inr s)"
  by (auto simp: table_statement_def fun_eq_iff OO_def split: sum.splits)

lemma schema_statements_Inr_iff:
  "fst (schema_statements d cat) = Inr stmts \<longleftrightarrow>
     (\<exists>rows. cat (list_query d) = Inr rows \<and>
        list_all2 (\<lambda>r s. table_statement d cat (bind_table d) r = Inr s) rows stmts)"
proof (cases d)
  case Sqlite
  then show ?thesis
    by (cases "cat SqliteMasterTables")
       (auto simp: tables_loop_Inr_iff [symmetric] split: prod.splits)
next
  case Postgres
  then show ?thesis
    by (cases "cat PostgresTables")
       (auto simp: tables_loop_Inr_iff [symmetric] split: prod.splits)
next
  case MySQL
  show ?thesis
  proof (cases "cat MySQLTables")
    case (Inl e)
    then show ?thesis using MySQL by simp
  next
    case (Inr rows)
    have "fst (schema_statements MySQL cat) = Inr stmts \<longleftrightarrow>
            (\<exists>vs. first_columns rows = Inr vs \<and> fst (tables_loop MySQL cat Inr vs) = Inr stmts)"
      using Inr by (cases "first_columns rows") (auto split: prod.splits)
    also have "\<dots> \<longleftrightarrow> (list_all2 (\<lambda>r v. index0 r = Inr v) OO
                          list_all2 (\<lambda>v s. table_statement MySQL cat Inr v = Inr s)) rows stmts"
      by (auto simp: first_columns_Inr_iff tables_loop_Inr_iff OO_def)
    also have "\<dots> \<longleftrightarrow> list_all2 (\<lambda>r s. table_statement MySQL cat index0 r = Inr s) rows stmts"
      by (simp add: table_statement_compose list.rel_compp)
    finally show ?thesis using MySQL Inr by simp
  qed
qed

lemma tables_loop_failed_pair:
  "tables_loop d cat bind xs = (r, qs) \<Longrightarrow> q \<in> set qs \<Longrightarrow> cat q = Inl e \<Longrightarrow> r = Inl e"
  using tables_loop_failed_query [of q d cat bind xs e] by simp

lemma schema_statements_failed_query:
  "q \<in> set (snd (schema_statements d cat)) \<Longrightarrow> cat q = Inl e \<Longrightarrow>
     fst (schema_statements d cat) = Inl e"
proof (cases d)
  case Sqlite
  then show "q \<in> set (snd (schema_statements d cat)) \<Longrightarrow> cat q = Inl e \<Longrightarrow> ?thesis"
    by (cases "cat SqliteMasterTables")
       (auto split: prod.splits dest: tables_loop_failed_pair [where e = e])
next
  case Postgres
  then show "q \<in> set (snd (schema_statements d cat)) \<Longrightarrow> cat q = Inl e \<Longrightarrow> ?thesis"
    by (cases "cat PostgresTables")
       (auto split: prod.splits dest: tables_loop_failed_pair [where e = e])
next
  case MySQL
  then show "q \<in> set (snd (schema_statements d cat)) \<Longrightarrow> cat q = Inl e \<Longrightarrow> ?thesis"
    by (cases "cat MySQLTables"; cases "first_columns (projr (cat MySQLTables))")
       (auto split: prod.splits dest: tables_loop_failed_pair [where e = e])
qed

lemma schema_statements_lists_first:
  "list_query d \<in> set (snd (schema_statements d cat))"
  by (cases d) (auto split: sum.splits prod.splits)

lemma get_db_schema_connected:
  "get_db_schema_as_create_statements (Connection (Some True) cat) db_type =
     (case dialect_of db_type of
        None \<Rightarrow>
          \<lparr>returned = Inr None, printed = [UnsupportedType db_type], queries = [],
           cursor_opened = True\<rparr>
      | Some d \<Rightarrow>
          (case fst (schema_statements d cat) of
             Inl e \<Rightarrow>
               \<lparr>returned = Inr None, printed = [ErrorExtractingSchema e],
                queries = snd (schema_statements d cat), cursor_opened = True\<rparr>
           | Inr stmts \<Rightarrow>
               \<lparr>returned = Inr (Some (py_join [NL, NL] stmts)), printed = [SchemaExtracted],
                queries = snd (schema_statements d cat), cursor_opened = True\<rparr>))"
  by (simp add: get_db_schema_as_create_statements_def split: option.splits prod.splits sum.splits)

lemma get_db_schema_queries_nonempty:
  "queries (get_db_schema_as_create_statements connection db_type) \<noteq> [] \<Longrightarrow>
     \<exists>cat d. connection = Connection (Some True) cat \<and> dialect_of db_type = Some d"
  by (auto simp: get_db_schema_as_create_statements_def
           split: connection.splits option.splits bool.splits)



lemma empty_table_statement:
  assumes "bind x = Inr name" and "cat (describe_query d name) = Inr []"
  shows "table_statement d cat bind x =
           Inr (''CREATE TABLE '' @ py_format name @ '' ('' @ [NL, NL] @ '');'')"
  using assms by (simp add: table_statement_def create_table_sql_def)

text \<open>The facts that evaluate a call on a given database.\<close>

lemmas run_simps =
  get_db_schema_as_create_statements_def dialect_of_def create_table_sql_def
  default_part_spec double_quotes_def upper_char_def

section \<open>The claims\<close>

text \<open>
  Claim C10. A handle that is an object without the attribute \<open>is_connected\<close> makes the
  guard at the top of \<open>get_db_schema_as_create_statements\<close> raise: the call gives the
  uncaught \<open>AttributeError\<close>, prints nothing, executes no query and obtains no cursor.
  The same guard stands at the top of \<open>execute_sql_query\<close>, with the same result.
\<close>

theorem missing_is_connected_raises:
  "get_db_schema_as_create_statements (Connection None cat) db_type =
     \<lparr>returned = Inl AttributeError, printed = [], queries = [], cursor_opened = False\<rparr>
   \<and> execute_sql_query (Connection None cat) sql_query =
     \<lparr>returned = Inl AttributeError, printed = [], queries = [], cursor_opened = False\<rparr>"
  by (simp add: get_db_schema_as_create_statements_def execute_sql_query_def)

theorem missing_is_connected_raises_witness:
  "returned (get_db_schema_as_create_statements (Connection None users_catalog) ''sqlite'')
     = Inl AttributeError
   \<and> queries (get_db_schema_as_create_statements (Connection None users_catalog) ''sqlite'') = []
   \<and> returned (execute_sql_query (Connection None users_catalog) ''SELECT 1'') = Inl AttributeError"
  using missing_is_connected_raises [of users_catalog "''sqlite''" "''SELECT 1''"]
  by simp

text \<open>
  Claim C1. For every dialect: when a catalog query that the call executed failed (the
  table listing, or the column query of any table, also after earlier tables were
  rendered), the call returns \<open>None\<close> through its \<open>except\<close> branch, which prints the
  schema extraction error with that exception; no statement is returned.
\<close>

theorem query_failure_aborts:
  assumes "q \<in> set (queries (get_db_schema_as_create_statements (Connection attr cat) db_type))"
    and "cat q = Inl e"
  shows "returned (get_db_schema_as_create_statements (Connection attr cat) db_type) = Inr None
       \<and> printed (get_db_schema_as_create_statements (Connection attr cat) db_type)
           = [ErrorExtractingSchema e]"
proof -
  from assms(1) have "queries (get_db_schema_as_create_statements (Connection attr cat) db_type) \<noteq> []"
    by auto
  then obtain d where attr: "attr = Some True" and d: "dialect_of db_type = Some d"
    by (auto dest: get_db_schema_queries_nonempty)
  have "q \<in> set (snd (schema_statements d cat))"
    using assms(1) by (simp add: attr d get_db_schema_connected split: sum.splits)
  then have "fst (schema_statements d cat) = Inl e"
    using assms(2) by (rule schema_statements_failed_query)
  then show ?thesis
    by (simp add: attr d get_db_schema_connected)
qed

theorem query_failure_aborts_witness:
  "queries (get_db_schema_as_create_statements (Connection (Some True) dropped_table_catalog) ''postgres'')
     = [PostgresTables, PostgresColumns (PyStr ''a''), PostgresColumns (PyStr ''b'')]
   \<and> dropped_table_catalog (PostgresColumns (PyStr ''b'')) = Inl (DatabaseError ''relation does not exist'')
   \<and> returned (get_db_schema_as_create_statements (Connection (Some True) dropped_table_catalog) ''postgres'')
     = Inr None
   \<and> printed (get_db_schema_as_create_statements (Connection (Some True) dropped_table_catalog) ''postgres'')
     = [ErrorExtractingSchema (DatabaseError ''relation does not exist'')]"
proof -
  have qs: "queries (get_db_schema_as_create_statements (Connection (Some True) dropped_table_catalog) ''postgres'')
     = [PostgresTables, PostgresColumns (PyStr ''a''), PostgresColumns (PyStr ''b'')]"
    by (simp add: run_simps dropped_table_catalog_def)
  have failed: "dropped_table_catalog (PostgresColumns (PyStr ''b'')) = Inl (DatabaseError ''relation does not exist'')"
    by (simp add: dropped_table_catalog_def)
  have "PostgresColumns (PyStr ''b'')
      \<in> set (queries (get_db_schema_as_create_statements (Connection (Some True) dropped_table_catalog) ''postgres''))"
    by (simp add: qs)
  from query_failure_aborts [OF this failed] qs failed show ?thesis
    by simp
qed

text \<open>
  Claim C3. When the handle is null or the dialect tag is not a recognized one, the
  call is to end with the invalid connection result, before anything is done through
  the handle. The code misses this for a handle that is an object without
  \<open>is_connected\<close>: the guard calls \<open>is_connected()\<close> on every handle that is not null,
  outside the \<open>try\<close> block and before the tag is looked at, so with the unrecognized tag
  \<open>oracle\<close> the call raises \<open>AttributeError\<close>; it does not return \<open>None\<close>, as the
  docstring of the function says it does for an invalid connection or an error.
\<close>

theorem unrecognized_dialect_raises:
  "dialect_of ''oracle'' = None
   \<and> returned (get_db_schema_as_create_statements (Connection None no_tables_catalog) ''oracle'')
       = Inl AttributeError
   \<and> returned (get_db_schema_as_create_statements (Connection None no_tables_catalog) ''oracle'')
       \<noteq> Inr None
   \<and> printed (get_db_schema_as_create_statements (Connection None no_tables_catalog) ''oracle'')
       = []"
  by (simp add: get_db_schema_as_create_statements_def dialect_of_def)

text \<open>
  What the guard and the dispatch on the tag do for the other handles. A null handle,
  and a handle whose \<open>is_connected()\<close> returns false, give \<open>None\<close> with the invalid
  connection message, no cursor and no query. A handle that passes the guard with an
  unrecognized tag gives \<open>None\<close> with the unsupported type warning and no query. No
  query is executed unless the handle passes the guard and the tag is recognized.
\<close>

theorem validation_precedes_queries:
  "(connection = PyNoneConnection \<or> connection = Connection (Some False) cat \<longrightarrow>
      get_db_schema_as_create_statements connection db_type =
        \<lparr>returned = Inr None, printed = [InvalidConnectionForSchema], queries = [],
         cursor_opened = False\<rparr>)
   \<and> (dialect_of db_type = None \<longrightarrow>
      get_db_schema_as_create_statements (Connection (Some True) cat) db_type =
        \<lparr>returned = Inr None, printed = [UnsupportedType db_type], queries = [],
         cursor_opened = True\<rparr>)
   \<and> (queries (get_db_schema_as_create_statements connection db_type) \<noteq> [] \<longrightarrow>
      (\<exists>cat' d. connection = Connection (Some True) cat' \<and> dialect_of db_type = Some d))"
  using get_db_schema_queries_nonempty [of connection db_type]
  by (auto simp: get_db_schema_as_create_statements_def)

theorem validation_precedes_queries_witness:
  "get_db_schema_as_create_statements PyNoneConnection ''sqlite'' =
     \<lparr>returned = Inr None, printed = [InvalidConnectionForSchema], queries = [],
      cursor_opened = False\<rparr>
   \<and> dialect_of ''oracle'' = None
   \<and> get_db_schema_as_create_statements (Connection (Some True) users_catalog) ''oracle'' =
     \<lparr>returned = Inr None, printed = [UnsupportedType ''oracle''], queries = [],
      cursor_opened = True\<rparr>
   \<and> queries (get_db_schema_as_create_statements (Connection (Some True) users_catalog) ''sqlite'')
       = [SqliteMasterTables, PragmaTableInfo ''users'']
   \<and> dialect_of ''sqlite'' = Some Sqlite"
proof -
  have a: "dialect_of ''oracle'' = None" and b: "dialect_of ''sqlite'' = Some Sqlite"
    by (simp_all add: dialect_of_def)
  have qs: "queries (get_db_schema_as_create_statements (Connection (Some True) users_catalog) ''sqlite'')
       = [SqliteMasterTables, PragmaTableInfo ''users'']"
    by (simp add: run_simps users_catalog_def)
  from validation_precedes_queries [of PyNoneConnection users_catalog "''sqlite''"]
    validation_precedes_queries [of PyNoneConnection users_catalog "''oracle''"]
    validation_precedes_queries [of "Connection (Some True) users_catalog" users_catalog "''sqlite''"]
    a b qs
  show ?thesis by simp
qed

text \<open>
  Claim C4. The scenario is the SQLite database with the single table \<open>users\<close>, its
  columns \<open>id INTEGER PRIMARY KEY\<close> and \<open>name TEXT NOT NULL\<close> with the default literal
  \<open>anon\<close>, read with the tag \<open>sqlite\<close>. The handle that \<open>create_database_connection\<close>
  gives for this tag is a \<open>sqlite3\<close> connection, which has no \<open>is_connected\<close>: the call
  raises \<open>AttributeError\<close> in the guard, executes no query and returns no document. For
  a handle that passes the guard, the branch takes the reported default, the literal
  with its quotes, as a string to quote: it doubles the two quotes and adds a pair, so
  the document has three quotes on each side of \<open>anon\<close> where the scenario has one.
\<close>

theorem users_scenario_no_document:
  "returned (get_db_schema_as_create_statements (Connection None users_catalog) ''sqlite'')
     = Inl AttributeError
   \<and> queries (get_db_schema_as_create_statements (Connection None users_catalog) ''sqlite'') = []
   \<and> returned (get_db_schema_as_create_statements (Connection (Some True) users_catalog) ''sqlite'')
     = Inr (Some (''CREATE TABLE users ('' @ [NL]
                  @ ''    id INTEGER PRIMARY KEY,'' @ [NL]
                  @ ''    name TEXT NOT NULL DEFAULT '' @ [QUOTE, QUOTE, QUOTE] @ ''anon''
                  @ [QUOTE, QUOTE, QUOTE] @ [NL]
                  @ '');''))"
  by (simp add: run_simps users_catalog_def)



text \<open>
  Claim C2, as the specification states it: a table whose column query gives no row
  makes the call fail. It fails for a SQLite database whose only table has no column:
  the call returns a document.
\<close>

theorem columnless_table_counterexample:
  "columnless_catalog (PragmaTableInfo ''t'') = Inr []
   \<and> returned (get_db_schema_as_create_statements (Connection (Some True) columnless_catalog) ''sqlite'')
       = Inr (Some (''CREATE TABLE t ('' @ [NL, NL] @ '');''))"
  by (simp add: run_simps columnless_catalog_def)

text \<open>
  Claim C2, amended. For every recognized tag and a handle that passes the guard: a
  listed table whose column query gives no row raises nothing. It is rendered as
  \<open>CREATE TABLE name (\<close>, an empty line and \<open>);\<close>, and when the other listed tables give
  their statements the call returns the document with all of them, this statement at
  the table's place.
\<close>

theorem columnless_table_rendered:
  assumes "dialect_of db_type = Some d"
    and "cat (list_query d) = Inr rows"
    and "i < length rows"
    and "bind_table d (rows ! i) = Inr name"
    and "cat (describe_query d name) = Inr []"
    and "list_all2 (\<lambda>r s. table_statement d cat (bind_table d) r = Inr s)
           (take i rows @ drop (Suc i) rows) others"
  shows "returned (get_db_schema_as_create_statements (Connection (Some True) cat) db_type) =
           Inr (Some (py_join [NL, NL]
             (take i others
              @ [''CREATE TABLE '' @ py_format name @ '' ('' @ [NL, NL] @ '');'']
              @ drop i others)))"
proof -
  let ?P = "\<lambda>r s. table_statement d cat (bind_table d) r = Inr s"
  let ?s = "''CREATE TABLE '' @ py_format name @ '' ('' @ [NL, NL] @ '');''"
  from assms(6) obtain us vs where others: "others = us @ vs"
    and us: "list_all2 ?P (take i rows) us" and vs: "list_all2 ?P (drop (Suc i) rows) vs"
    by (auto simp: list_all2_append1)
  have len: "length us = i"
    using us assms(3) by (auto dest: list_all2_lengthD)
  have s: "?P (rows ! i) ?s"
    using assms(4,5) by (rule empty_table_statement)
  have "list_all2 ?P (take i rows @ rows ! i # drop (Suc i) rows) (us @ ?s # vs)"
    using us vs s by (intro list_all2_appendI) simp_all
  then have "list_all2 ?P rows (us @ ?s # vs)"
    using assms(3) by (simp add: id_take_nth_drop [symmetric])
  then have "fst (schema_statements d cat) = Inr (us @ ?s # vs)"
    using assms(2) by (auto simp: schema_statements_Inr_iff)
  then show ?thesis
    using assms(1) len by (simp add: get_db_schema_connected others)
qed

theorem columnless_table_rendered_witness:
  "returned (get_db_schema_as_create_statements (Connection (Some True) empty_table_catalog) ''mysql'')
       = Inr (Some (py_join [NL, NL]
           [''CREATE TABLE t ('' @ [NL, NL] @ '');'',
            ''CREATE TABLE u ('' @ [NL]
               @ ''    id INT NOT NULL AUTO_INCREMENT PRIMARY KEY'' @ [NL] @ '');'']))"
proof -
  have d: "dialect_of ''mysql'' = Some MySQL"
    by (simp add: dialect_of_def)
  have rows: "empty_table_catalog (list_query MySQL) = Inr [[PyStr ''t''], [PyStr ''u'']]"
    by (simp add: empty_table_catalog_def)
  have i: "(0::nat) < length [[PyStr ''t''], [PyStr ''u'']]"
    by simp
  have name: "bind_table MySQL ([[PyStr ''t''], [PyStr ''u'']] ! 0) = Inr (PyStr ''t'')"
    by simp
  have cols: "empty_table_catalog (describe_query MySQL (PyStr ''t'')) = Inr []"
    by (simp add: empty_table_catalog_def)
  have others: "list_all2 (\<lambda>r s. table_statement MySQL empty_table_catalog (bind_table MySQL) r = Inr s)
           (take 0 [[PyStr ''t''], [PyStr ''u'']] @ drop (Suc 0) [[PyStr ''t''], [PyStr ''u'']])
           [''CREATE TABLE u ('' @ [NL]
               @ ''    id INT NOT NULL AUTO_INCREMENT PRIMARY KEY'' @ [NL] @ '');'']"
    by (simp add: table_statement_def empty_table_catalog_def run_simps)
  from columnless_table_rendered [OF d rows i name cols others]
  show ?thesis by simp
qed

text \<open>
  Claim C5. For every dialect: a table's statement is built exactly when each of its
  N column rows has the shape that the dialect's normalizer accepts, and it is then the
  header, the N column lines joined by a comma and a newline (none after the last) and
  the closing line. The column lines stand in the order of the rows, and the line of a
  row is the specification's line for its descriptor: the name and the upper-cased
  type, then \<open>NOT NULL\<close> if not nullable, then \<open>DEFAULT\<close> if a default exists, then
  \<open>AUTO_INCREMENT\<close> if set, then \<open>PRIMARY KEY\<close> if set. On the raw rows: a SQLite row
  gets \<open>NOT NULL\<close> exactly for a nonzero not-null flag and \<open>PRIMARY KEY\<close> exactly for a
  nonzero key flag; a Postgres row gets \<open>NOT NULL\<close> exactly when \<open>is_nullable\<close> is \<open>NO\<close>;
  a MySQL row gets \<open>NOT NULL\<close> likewise, \<open>AUTO_INCREMENT\<close> exactly when \<open>extra\<close> is
  \<open>auto_increment\<close> and \<open>PRIMARY KEY\<close> exactly when \<open>column_key\<close> is \<open>PRI\<close>.
\<close>

theorem one_line_per_column:
  "(create_table_sql d table_name cols = Inr stmt \<longleftrightarrow>
     (\<exists>cs. list_all2 (\<lambda>r c. normalize_row d r = Some c) cols cs
        \<and> length cs = length cols
        \<and> stmt = ''CREATE TABLE '' @ py_format table_name @ '' ('' @ [NL]
                 @ py_join ('','' @ [NL]) (map spec_column_line cs) @ [NL] @ '');''))
   \<and> normalize_row Sqlite [cid, name, PyStr ty, PyInt notnull, dflt_value, PyInt pk] =
       Some \<lparr>col_name = py_format name, declared_type = ty, nullable = (notnull = 0),
             default_value = dflt_value, is_primary_key = (pk \<noteq> 0),
             is_auto_increment = False\<rparr>
   \<and> col_def Sqlite [cid, name, PyStr ty, PyInt notnull, dflt_value, PyInt pk] =
       Inr (''    '' @ py_format name @ '' '' @ map upper_char ty
            @ (if notnull \<noteq> 0 then '' NOT NULL'' else [])
            @ spec_default_clause dflt_value
            @ (if pk \<noteq> 0 then '' PRIMARY KEY'' else []))
   \<and> col_def Postgres [name, PyStr ty, is_nullable, column_default] =
       Inr (''    '' @ py_format name @ '' '' @ map upper_char ty
            @ (if is_nullable = PyStr ''NO'' then '' NOT NULL'' else [])
            @ spec_default_clause column_default)
   \<and> col_def MySQL [name, PyStr ty, is_nullable, column_key, column_default, extra] =
       Inr (''    '' @ py_format name @ '' '' @ map upper_char ty
            @ (if is_nullable = PyStr ''NO'' then '' NOT NULL'' else [])
            @ spec_default_clause column_default
            @ (if extra = PyStr ''auto_increment'' then '' AUTO_INCREMENT'' else [])
            @ (if column_key = PyStr ''PRI'' then '' PRIMARY KEY'' else []))"
proof (intro conjI)
  define wrap where
    "wrap lines = ''CREATE TABLE '' @ py_format table_name @ '' ('' @ [NL]
                  @ py_join ('','' @ [NL]) lines @ [NL] @ '');''" for lines
  have "create_table_sql d table_name cols = Inr stmt \<longleftrightarrow>
          (\<exists>lines. column_definitions d cols = Inr lines \<and> stmt = wrap lines)"
    by (cases "column_definitions d cols") (auto simp: create_table_sql_def wrap_def)
  also have "\<dots> \<longleftrightarrow>
     (\<exists>cs. list_all2 (\<lambda>r c. normalize_row d r = Some c) cols cs
        \<and> length cs = length cols \<and> stmt = wrap (map spec_column_line cs))"
    unfolding column_definitions_Inr_iff list_all2_normalized
    using list_all2_lengthD by fastforce
  finally show "create_table_sql d table_name cols = Inr stmt \<longleftrightarrow>
     (\<exists>cs. list_all2 (\<lambda>r c. normalize_row d r = Some c) cols cs
        \<and> length cs = length cols
        \<and> stmt = ''CREATE TABLE '' @ py_format table_name @ '' ('' @ [NL]
                 @ py_join ('','' @ [NL]) (map spec_column_line cs) @ [NL] @ '');'')"
    unfolding wrap_def .
next
  show "normalize_row Sqlite [cid, name, PyStr ty, PyInt notnull, dflt_value, PyInt pk] =
       Some \<lparr>col_name = py_format name, declared_type = ty, nullable = (notnull = 0),
             default_value = dflt_value, is_primary_key = (pk \<noteq> 0),
             is_auto_increment = False\<rparr>"
    by simp
next
  show "col_def Sqlite [cid, name, PyStr ty, PyInt notnull, dflt_value, PyInt pk] =
       Inr (''    '' @ py_format name @ '' '' @ map upper_char ty
            @ (if notnull \<noteq> 0 then '' NOT NULL'' else [])
            @ spec_default_clause dflt_value
            @ (if pk \<noteq> 0 then '' PRIMARY KEY'' else []))"
    by (rule sqlite_line)
next
  show "col_def Postgres [name, PyStr ty, is_nullable, column_default] =
       Inr (''    '' @ py_format name @ '' '' @ map upper_char ty
            @ (if is_nullable = PyStr ''NO'' then '' NOT NULL'' else [])
            @ spec_default_clause column_default)"
    by (rule postgres_line)
next
  show "col_def MySQL [name, PyStr ty, is_nullable, column_key, column_default, extra] =
       Inr (''    '' @ py_format name @ '' '' @ map upper_char ty
            @ (if is_nullable = PyStr ''NO'' then '' NOT NULL'' else [])
            @ spec_default_clause column_default
            @ (if extra = PyStr ''auto_increment'' then '' AUTO_INCREMENT'' else [])
            @ (if column_key = PyStr ''PRI'' then '' PRIMARY KEY'' else []))"
    by (rule mysql_line)
qed

theorem one_line_per_column_witness:
  "create_table_sql Sqlite (PyStr ''items'')
     [[PyInt 0, PyStr ''id'', PyStr ''integer'', PyInt 1, PyNone, PyInt 2],
      [PyInt 1, PyStr ''label'', PyStr ''text'', PyInt 0, PyNone, PyInt 0]]
   = Inr (''CREATE TABLE items ('' @ [NL]
          @ ''    id INTEGER NOT NULL PRIMARY KEY,'' @ [NL]
          @ ''    label TEXT'' @ [NL]
          @ '');'')
   \<and> create_table_sql Postgres (PyStr ''events'')
     [[PyStr ''at'', PyStr ''date'', PyStr ''NO'', PyNone],
      [PyStr ''n'', PyStr ''integer'', PyStr ''YES'', PyInt 0]]
   = Inr (''CREATE TABLE events ('' @ [NL]
          @ ''    at DATE NOT NULL,'' @ [NL]
          @ ''    n INTEGER DEFAULT 0'' @ [NL]
          @ '');'')
   \<and> create_table_sql MySQL (PyStr ''orders'')
     [[PyStr ''id'', PyStr ''int'', PyStr ''NO'', PyStr ''PRI'', PyNone, PyStr ''auto_increment''],
      [PyStr ''qty'', PyStr ''smallint'', PyStr ''NO'', PyStr '''', PyInt 1, PyStr ''''],
      [PyStr ''note'', PyStr ''varchar(20)'', PyStr ''YES'', PyStr '''', PyStr ''n/a'', PyStr '''']]
   = Inr (''CREATE TABLE orders ('' @ [NL]
          @ ''    id INT NOT NULL AUTO_INCREMENT PRIMARY KEY,'' @ [NL]
          @ ''    qty SMALLINT NOT NULL DEFAULT 1,'' @ [NL]
          @ ''    note VARCHAR(20) DEFAULT '' @ [QUOTE] @ ''n/a'' @ [QUOTE] @ [NL]
          @ '');'')"
proof -
  let ?sq = "[\<lparr>col_name = ''id'', declared_type = ''integer'', nullable = False,
               default_value = PyNone, is_primary_key = True, is_auto_increment = False\<rparr>,
              \<lparr>col_name = ''label'', declared_type = ''text'', nullable = True,
               default_value = PyNone, is_primary_key = False, is_auto_increment = False\<rparr>]"
  let ?pg = "[\<lparr>col_name = ''at'', declared_type = ''date'', nullable = False,
               default_value = PyNone, is_primary_key = False, is_auto_increment = False\<rparr>,
              \<lparr>col_name = ''n'', declared_type = ''integer'', nullable = True,
               default_value = PyInt 0, is_primary_key = False, is_auto_increment = False\<rparr>]"
  let ?my = "[\<lparr>col_name = ''id'', declared_type = ''int'', nullable = False, default_value = PyNone,
               is_primary_key = True, is_auto_increment = True\<rparr>,
              \<lparr>col_name = ''qty'', declared_type = ''smallint'', nullable = False,
               default_value = PyInt 1, is_primary_key = False, is_auto_increment = False\<rparr>,
              \<lparr>col_name = ''note'', declared_type = ''varchar(20)'', nullable = True,
               default_value = PyStr ''n/a'', is_primary_key = False, is_auto_increment = False\<rparr>]"
  have sq: "create_table_sql Sqlite (PyStr ''items'')
     [[PyInt 0, PyStr ''id'', PyStr ''integer'', PyInt 1, PyNone, PyInt 2],
      [PyInt 1, PyStr ''label'', PyStr ''text'', PyInt 0, PyNone, PyInt 0]]
    = Inr (''CREATE TABLE '' @ py_format (PyStr ''items'') @ '' ('' @ [NL]
                 @ py_join ('','' @ [NL]) (map spec_column_line ?sq) @ [NL] @ '');'')"
    by (rule iffD2 [OF one_line_per_column [THEN conjunct1]]) (rule exI [of _ ?sq], simp)
  have pg: "create_table_sql Postgres (PyStr ''events'')
     [[PyStr ''at'', PyStr ''date'', PyStr ''NO'', PyNone],
      [PyStr ''n'', PyStr ''integer'', PyStr ''YES'', PyInt 0]]
    = Inr (''CREATE TABLE '' @ py_format (PyStr ''events'') @ '' ('' @ [NL]
                 @ py_join ('','' @ [NL]) (map spec_column_line ?pg) @ [NL] @ '');'')"
    by (rule iffD2 [OF one_line_per_column [THEN conjunct1]]) (rule exI [of _ ?pg], simp)
  have my: "create_table_sql MySQL (PyStr ''orders'')
     [[PyStr ''id'', PyStr ''int'', PyStr ''NO'', PyStr ''PRI'', PyNone, PyStr ''auto_increment''],
      [PyStr ''qty'', PyStr ''smallint'', PyStr ''NO'', PyStr '''', PyInt 1, PyStr ''''],
      [PyStr ''note'', PyStr ''varchar(20)'', PyStr ''YES'', PyStr '''', PyStr ''n/a'', PyStr '''']]
    = Inr (''CREATE TABLE '' @ py_format (PyStr ''orders'') @ '' ('' @ [NL]
                 @ py_join ('','' @ [NL]) (map spec_column_line ?my) @ [NL] @ '');'')"
    by (rule iffD2 [OF one_line_per_column [THEN conjunct1]]) (rule exI [of _ ?my], simp)
  from sq pg my show ?thesis
    by (simp add: spec_column_line_def double_quotes_def upper_char_def str_of_int_def
                  str_of_nat.simps digit_char_def)
qed

text \<open>
  Claim C6. For every dialect, the line of a column has, between the \<open>NOT NULL\<close> part
  and the \<open>AUTO_INCREMENT\<close> and \<open>PRIMARY KEY\<close> parts: nothing when the default is
  \<open>None\<close>; \<open>DEFAULT\<close> and the string in single quotes with each of its single quotes
  doubled when the default is a string; \<open>DEFAULT\<close> and the decimal numeral, unquoted,
  when it is an integer. The default is the fifth field of a SQLite or MySQL row and the
  fourth of a Postgres row. The numeral holds no single quote, reads back as the number
  when that is not negative, and is a minus sign before the numeral of the opposite
  number otherwise.
\<close>

theorem default_value_rendering:
  assumes "normalize_row d r = Some c"
  shows "col_def d r =
           Inr (''    '' @ col_name c @ '' '' @ map upper_char (declared_type c)
                @ (if nullable c then [] else '' NOT NULL'')
                @ (case default_value c of
                     PyNone \<Rightarrow> []
                   | PyStr s \<Rightarrow>
                       '' DEFAULT '' @ [QUOTE]
                       @ concat (map (\<lambda>x. if x = QUOTE then [QUOTE, QUOTE] else [x]) s)
                       @ [QUOTE]
                   | PyInt i \<Rightarrow> '' DEFAULT '' @ str_of_int i)
                @ (if is_auto_increment c then '' AUTO_INCREMENT'' else [])
                @ (if is_primary_key c then '' PRIMARY KEY'' else []))
         \<and> default_value c = r ! (case d of Postgres \<Rightarrow> 3 | _ \<Rightarrow> 4)
         \<and> QUOTE \<notin> set (str_of_int i)
         \<and> (0 \<le> i \<longrightarrow> int (nat_of_digits (str_of_int i)) = i)
         \<and> (i < 0 \<longrightarrow> str_of_int i = CHR ''-'' # str_of_int (- i))"
proof (intro conjI)
  show "QUOTE \<notin> set (str_of_int i)"
    by (rule str_of_int_no_quote)
  show "0 \<le> i \<longrightarrow> int (nat_of_digits (str_of_int i)) = i"
    and "i < 0 \<longrightarrow> str_of_int i = CHR ''-'' # str_of_int (- i)"
    using str_of_int_decimal [of i] by blast+
next
  have "spec_default_clause v =
          (case v of
             PyNone \<Rightarrow> []
           | PyStr s \<Rightarrow>
               '' DEFAULT '' @ [QUOTE]
               @ concat (map (\<lambda>x. if x = QUOTE then [QUOTE, QUOTE] else [x]) s) @ [QUOTE]
           | PyInt i \<Rightarrow> '' DEFAULT '' @ str_of_int i)" for v
    by (cases v) (simp_all add: double_quotes_def)
  then show "col_def d r =
           Inr (''    '' @ col_name c @ '' '' @ map upper_char (declared_type c)
                @ (if nullable c then [] else '' NOT NULL'')
                @ (case default_value c of
                     PyNone \<Rightarrow> []
                   | PyStr s \<Rightarrow>
                       '' DEFAULT '' @ [QUOTE]
                       @ concat (map (\<lambda>x. if x = QUOTE then [QUOTE, QUOTE] else [x]) s)
                       @ [QUOTE]
                   | PyInt i \<Rightarrow> '' DEFAULT '' @ str_of_int i)
                @ (if is_auto_increment c then '' AUTO_INCREMENT'' else [])
                @ (if is_primary_key c then '' PRIMARY KEY'' else []))"
    using col_def_refines [OF assms] by (simp add: spec_column_line_def)
  show "default_value c = r ! (case d of Postgres \<Rightarrow> 3 | _ \<Rightarrow> 4)"
  proof (cases d)
    case Sqlite
    then show ?thesis
      using assms by (auto elim!: sqlite_descriptor.elims)
  next
    case Postgres
    then show ?thesis
      using assms by (auto elim!: postgres_descriptor.elims)
  next
    case MySQL
    then show ?thesis
      using assms by (auto elim!: mysql_descriptor.elims)
  qed
qed

theorem default_value_rendering_witness:
  "col_def Sqlite [PyInt 2, PyStr ''surname'', PyStr ''text'', PyInt 0,
                   PyStr (''O'' @ [QUOTE] @ ''Brien''), PyInt 0]
     = Inr (''    surname TEXT DEFAULT '' @ [QUOTE] @ ''O'' @ [QUOTE, QUOTE] @ ''Brien'' @ [QUOTE])
   \<and> col_def Postgres [PyStr ''qty'', PyStr ''integer'', PyStr ''NO'', PyInt (- 42)]
     = Inr ''    qty INTEGER NOT NULL DEFAULT -42''
   \<and> col_def MySQL [PyStr ''note'', PyStr ''text'', PyStr ''YES'', PyStr '''', PyNone, PyStr '''']
     = Inr ''    note TEXT''"
proof -
  have a: "normalize_row Sqlite [PyInt 2, PyStr ''surname'', PyStr ''text'', PyInt 0,
                   PyStr (''O'' @ [QUOTE] @ ''Brien''), PyInt 0]
      = Some \<lparr>col_name = ''surname'', declared_type = ''text'', nullable = True,
              default_value = PyStr (''O'' @ [QUOTE] @ ''Brien''), is_primary_key = False,
              is_auto_increment = False\<rparr>"
    by simp
  have b: "normalize_row Postgres [PyStr ''qty'', PyStr ''integer'', PyStr ''NO'', PyInt (- 42)]
      = Some \<lparr>col_name = ''qty'', declared_type = ''integer'', nullable = False,
              default_value = PyInt (- 42), is_primary_key = False, is_auto_increment = False\<rparr>"
    by simp
  have c: "normalize_row MySQL [PyStr ''note'', PyStr ''text'', PyStr ''YES'', PyStr '''', PyNone, PyStr '''']
      = Some \<lparr>col_name = ''note'', declared_type = ''text'', nullable = True,
              default_value = PyNone, is_primary_key = False, is_auto_increment = False\<rparr>"
    by simp
  from default_value_rendering [OF a] default_value_rendering [OF b] default_value_rendering [OF c]
  show ?thesis
    by (simp add: upper_char_def str_of_int_def str_of_nat.simps digit_char_def)
qed

text \<open>
  Claim C8. For the Postgres dialect: the descriptor of a row has both the primary key
  and the auto-increment flag false, and is nullable exactly when the third field of
  the row is not the string \<open>NO\<close>. Every statement built under this dialect consists of
  column lines that end with the \<open>DEFAULT\<close> part: the name, the upper-cased type,
  \<open>NOT NULL\<close> exactly for the rows whose third field is \<open>NO\<close>, the default, and neither
  a \<open>PRIMARY KEY\<close> nor an \<open>AUTO_INCREMENT\<close> part.
\<close>

theorem postgres_no_key_clauses:
  "(\<forall>c. normalize_row Postgres r = Some c \<longrightarrow>
        \<not> is_primary_key c \<and> \<not> is_auto_increment c \<and> (nullable c \<longleftrightarrow> r ! 2 \<noteq> PyStr ''NO''))
   \<and> (\<forall>stmt. create_table_sql Postgres table_name cols = Inr stmt \<longrightarrow>
        (\<exists>lines. stmt = ''CREATE TABLE '' @ py_format table_name @ '' ('' @ [NL]
                        @ py_join ('','' @ [NL]) lines @ [NL] @ '');''
           \<and> list_all2
               (\<lambda>row line. \<exists>n ty nul dv. row = [n, PyStr ty, nul, dv]
                  \<and> line = ''    '' @ py_format n @ '' '' @ map upper_char ty
                           @ (if nul = PyStr ''NO'' then '' NOT NULL'' else [])
                           @ spec_default_clause dv)
               cols lines))"
proof (intro conjI allI impI)
  fix c assume c: "normalize_row Postgres r = Some c"
  then show "\<not> is_primary_key c" "\<not> is_auto_increment c" "nullable c \<longleftrightarrow> r ! 2 \<noteq> PyStr ''NO''"
    by (auto elim!: postgres_descriptor.elims)
next
  fix stmt assume "create_table_sql Postgres table_name cols = Inr stmt"
  then obtain lines where lines: "column_definitions Postgres cols = Inr lines"
    and stmt: "stmt = ''CREATE TABLE '' @ py_format table_name @ '' ('' @ [NL]
                        @ py_join ('','' @ [NL]) lines @ [NL] @ '');''"
    by (cases "column_definitions Postgres cols") (auto simp: create_table_sql_def)
  from lines have "list_all2 (\<lambda>row line. postgres_col_def row = Inr line) cols lines"
    by (simp add: column_definitions_Inr_iff)
  then have "list_all2
               (\<lambda>row line. \<exists>n ty nul dv. row = [n, PyStr ty, nul, dv]
                  \<and> line = ''    '' @ py_format n @ '' '' @ map upper_char ty
                           @ (if nul = PyStr ''NO'' then '' NOT NULL'' else [])
                           @ spec_default_clause dv)
               cols lines"
    by (rule list_all2_mono) (rule postgres_col_def_Inr)
  with stmt show "\<exists>lines. stmt = ''CREATE TABLE '' @ py_format table_name @ '' ('' @ [NL]
                        @ py_join ('','' @ [NL]) lines @ [NL] @ '');''
           \<and> list_all2
               (\<lambda>row line. \<exists>n ty nul dv. row = [n, PyStr ty, nul, dv]
                  \<and> line = ''    '' @ py_format n @ '' '' @ map upper_char ty
                           @ (if nul = PyStr ''NO'' then '' NOT NULL'' else [])
                           @ spec_default_clause dv)
               cols lines"
    by blast
qed

theorem postgres_no_key_clauses_witness:
  "normalize_row Postgres [PyStr ''id'', PyStr ''integer'', PyStr ''NO'', PyNone]
     = Some \<lparr>col_name = ''id'', declared_type = ''integer'', nullable = False,
             default_value = PyNone, is_primary_key = False, is_auto_increment = False\<rparr>
   \<and> create_table_sql Postgres (PyStr ''users'')
       [[PyStr ''id'', PyStr ''integer'', PyStr ''NO'', PyNone],
        [PyStr ''name'', PyStr ''text'', PyStr ''YES'', PyNone]]
     = Inr (''CREATE TABLE users ('' @ [NL] @ ''    id INTEGER NOT NULL,'' @ [NL]
            @ ''    name TEXT'' @ [NL] @ '');'')
   \<and> (\<exists>lines. ''CREATE TABLE users ('' @ [NL] @ ''    id INTEGER NOT NULL,'' @ [NL]
                @ ''    name TEXT'' @ [NL] @ '');''
              = ''CREATE TABLE '' @ py_format (PyStr ''users'') @ '' ('' @ [NL]
                @ py_join ('','' @ [NL]) lines @ [NL] @ '');''
        \<and> length lines = 2)"
proof -
  have n: "normalize_row Postgres [PyStr ''id'', PyStr ''integer'', PyStr ''NO'', PyNone]
     = Some \<lparr>col_name = ''id'', declared_type = ''integer'', nullable = False,
             default_value = PyNone, is_primary_key = False, is_auto_increment = False\<rparr>"
    by simp
  have s: "create_table_sql Postgres (PyStr ''users'')
       [[PyStr ''id'', PyStr ''integer'', PyStr ''NO'', PyNone],
        [PyStr ''name'', PyStr ''text'', PyStr ''YES'', PyNone]]
     = Inr (''CREATE TABLE users ('' @ [NL] @ ''    id INTEGER NOT NULL,'' @ [NL]
            @ ''    name TEXT'' @ [NL] @ '');'')"
    by (simp add: run_simps)
  from postgres_no_key_clauses
         [of "[PyStr ''id'', PyStr ''integer'', PyStr ''NO'', PyNone]" "PyStr ''users''"
             "[[PyStr ''id'', PyStr ''integer'', PyStr ''NO'', PyNone],
               [PyStr ''name'', PyStr ''text'', PyStr ''YES'', PyNone]]"] s
  obtain lines where
    "''CREATE TABLE users ('' @ [NL] @ ''    id INTEGER NOT NULL,'' @ [NL]
                @ ''    name TEXT'' @ [NL] @ '');''
              = ''CREATE TABLE '' @ py_format (PyStr ''users'') @ '' ('' @ [NL]
                @ py_join ('','' @ [NL]) lines @ [NL] @ '');''"
    and "length lines = 2"
    by (auto dest: list_all2_lengthD)
  with n s show ?thesis by blast
qed

text \<open>
  Claim C9. For the SQLite dialect, a row whose primary key flag is the integer \<open>pk\<close>
  gets the \<open>PRIMARY KEY\<close> part exactly when \<open>pk\<close> is not zero. For every dialect and every
  ASCII type string, the type token of the column line follows the name and is the
  type string with its letters a to z replaced by the capitals A to Z: it has the
  length of the type string, a to z go to A to Z in this order, and at every position
  where the type string has another character the token has the same character.
\<close>

theorem primary_key_flag_and_type_token:
  assumes "ascii_text ty"
  shows "sqlite_col_def [cid, name, PyStr ty, notnull, dflt_value, PyInt pk] =
           Inr (''    '' @ py_format name @ '' '' @ map upper_char ty
                @ (if flag_set notnull then '' NOT NULL'' else [])
                @ spec_default_clause dflt_value
                @ (if pk \<noteq> 0 then '' PRIMARY KEY'' else []))
       \<and> (\<exists>rest. col_def Sqlite [cid, name, PyStr ty, notnull, dflt_value, pkv] =
             Inr (''    '' @ py_format name @ '' '' @ map upper_char ty @ rest))
       \<and> (\<exists>rest. col_def Postgres [name, PyStr ty, is_nullable, column_default] =
             Inr (''    '' @ py_format name @ '' '' @ map upper_char ty @ rest))
       \<and> (\<exists>rest. col_def MySQL [name, PyStr ty, is_nullable, column_key, column_default, extra] =
             Inr (''    '' @ py_format name @ '' '' @ map upper_char ty @ rest))
       \<and> length (map upper_char ty) = length ty
       \<and> map upper_char ''abcdefghijklmnopqrstuvwxyz'' = ''ABCDEFGHIJKLMNOPQRSTUVWXYZ''
       \<and> (\<forall>i < length ty. ty ! i \<notin> set ''abcdefghijklmnopqrstuvwxyz''
             \<longrightarrow> map upper_char ty ! i = ty ! i)"
proof (intro conjI allI impI)
  show "sqlite_col_def [cid, name, PyStr ty, notnull, dflt_value, PyInt pk] =
           Inr (''    '' @ py_format name @ '' '' @ map upper_char ty
                @ (if flag_set notnull then '' NOT NULL'' else [])
                @ spec_default_clause dflt_value
                @ (if pk \<noteq> 0 then '' PRIMARY KEY'' else []))"
    by (simp add: default_part_spec truthy_flag_set)
next
  show "\<exists>rest. col_def Sqlite [cid, name, PyStr ty, notnull, dflt_value, pkv] =
             Inr (''    '' @ py_format name @ '' '' @ map upper_char ty @ rest)"
    by simp
next
  show "\<exists>rest. col_def Postgres [name, PyStr ty, is_nullable, column_default] =
             Inr (''    '' @ py_format name @ '' '' @ map upper_char ty @ rest)"
    by simp
next
  show "\<exists>rest. col_def MySQL [name, PyStr ty, is_nullable, column_key, column_default, extra] =
             Inr (''    '' @ py_format name @ '' '' @ map upper_char ty @ rest)"
    by simp
next
  show "length (map upper_char ty) = length ty"
    by simp
next
  show "map upper_char ''abcdefghijklmnopqrstuvwxyz'' = ''ABCDEFGHIJKLMNOPQRSTUVWXYZ''"
    by (rule upper_char_capitals)
next
  fix i
  assume "i < length ty" and "ty ! i \<notin> set ''abcdefghijklmnopqrstuvwxyz''"
  with assms show "map upper_char ty ! i = ty ! i"
    by (rule upper_char_ascii_text)
qed

theorem primary_key_flag_and_type_token_witness:
  "ascii_text ''Integer''
   \<and> sqlite_col_def [PyInt 0, PyStr ''a'', PyStr ''Integer'', PyInt 0, PyNone, PyInt 2]
     = Inr ''    a INTEGER PRIMARY KEY''
   \<and> ascii_text ''varchar(8)''
   \<and> sqlite_col_def [PyInt 1, PyStr ''b'', PyStr ''varchar(8)'', PyInt 0, PyNone, PyInt 0]
     = Inr ''    b VARCHAR(8)''
   \<and> (\<exists>rest. col_def MySQL [PyStr ''b'', PyStr ''varchar(8)'', PyStr ''NO'', PyStr '''', PyNone,
                              PyStr '''']
         = Inr (''    b VARCHAR(8)'' @ rest))
   \<and> map upper_char ''varchar(8)'' ! 7 = CHR ''(''"
proof -
  have a: "ascii_text ''Integer''" and b: "ascii_text ''varchar(8)''"
    by (simp_all add: ascii_text_def)
  note first = primary_key_flag_and_type_token
         [OF a, of "PyInt 0" "PyStr ''a''" "PyInt 0" PyNone 2]
  note second = primary_key_flag_and_type_token
         [OF b, of "PyInt 1" "PyStr ''b''" "PyInt 0" PyNone 0 "PyInt 0" "PyStr ''NO''" PyNone
            "PyStr ''''" "PyStr ''''"]
  have one: "sqlite_col_def [PyInt 0, PyStr ''a'', PyStr ''Integer'', PyInt 0, PyNone, PyInt 2]
     = Inr ''    a INTEGER PRIMARY KEY''"
    using first [THEN conjunct1] by (simp add: upper_char_def)
  have two: "sqlite_col_def [PyInt 1, PyStr ''b'', PyStr ''varchar(8)'', PyInt 0, PyNone, PyInt 0]
     = Inr ''    b VARCHAR(8)''"
    using second [THEN conjunct1] by (simp add: upper_char_def)
  have three: "\<exists>rest. col_def MySQL [PyStr ''b'', PyStr ''varchar(8)'', PyStr ''NO'', PyStr '''',
                                   PyNone, PyStr '''']
         = Inr (''    b VARCHAR(8)'' @ rest)"
    using second [THEN conjunct2, THEN conjunct2, THEN conjunct2, THEN conjunct1]
    by (simp add: upper_char_def)
  have "\<forall>i < length ''varchar(8)''. ''varchar(8)'' ! i \<notin> set ''abcdefghijklmnopqrstuvwxyz''
           \<longrightarrow> map upper_char ''varchar(8)'' ! i = ''varchar(8)'' ! i"
    using second by blast
  from this [rule_format, of 7]
  have four: "map upper_char ''varchar(8)'' ! 7 = CHR ''(''"
    by simp
  from a b one two three four show ?thesis
    by blast
qed

end
